theory Spec2Isabelle
  imports Main
begin

section \<open>The credential endpoints of auth.py\<close>

text \<open>
  The module auth.py defines two Flask handlers, \<open>login\<close> and \<open>signup\<close>, over one
  SQLite table \<open>users\<close>, and the helper \<open>get_current_user_email\<close>. The handlers are
  modelled as functions from the request and the storage state to an outcome (an HTTP
  response, or the exception that leaves the handler) and the storage state afterwards.
  The state is returned in both cases: what a handler did to storage before it raised
  stays done.
\<close>

subsection \<open>Python values, requests and responses\<close>

text \<open>
  What \<open>request.get_json()\<close> can return: the Python image of a JSON document. JSON
  numbers are kept as integers; the handlers do with a float what they do with an integer.
  Python's integers are unbounded, and so is \<open>PInt\<close>. A str is held as the bytes of its
  UTF-8 encoding.
\<close>

datatype pyval =
    PNone
  | PBool bool
  | PInt int
  | PStr string
  | PList "pyval list"
  | PDict "(string \<times> pyval) list"

text \<open>The exceptions that can leave a handler.\<close>

datatype error =
    BadRequest
  | AttributeError
  | TypeError
  | ValueError
  | OperationalError
  | ProgrammingError
  | OverflowError
  | IntegrityError

text \<open>Both routes are registered with \<open>methods=['POST', 'OPTIONS']\<close>.\<close>

datatype http_method = POST | OPTIONS

text \<open>
  A request, as far as the handlers read it: \<open>request.method\<close> (the field
  \<open>req_method\<close>), and what the call
  \<open>request.get_json()\<close> does (it raises on a body that is not JSON, and returns the
  parsed document otherwise).
\<close>

record request =
  req_method :: http_method
  get_json :: "error + pyval"

text \<open>
  A response is the pair \<open>(jsonify(...), code)\<close>. The bodies of this module are either
  objects of string fields, or \<open>{access_token: token}\<close>.
\<close>

datatype 't body =
    Fields "(string \<times> string) list"
  | AccessToken 't

datatype 't response = Response (status: nat) (body: "'t body")

text \<open>
  \<open>data.get(key)\<close>: on a dict the value stored under the key, \<open>None\<close> when the key is
  missing; every other JSON value (\<open>None\<close>, a number, a string, a list) has no method
  \<open>get\<close> and the call raises AttributeError. \<open>PDict\<close> lists the items of the dict in
  the order of the document; where a key is repeated the last item is the one the dict
  holds.
\<close>

definition dict_get :: "(string \<times> pyval) list \<Rightarrow> string \<Rightarrow> pyval" where
  "dict_get kvs k = (case map_of (rev kvs) k of None \<Rightarrow> PNone | Some v \<Rightarrow> v)"

fun py_get :: "pyval \<Rightarrow> string \<Rightarrow> error + pyval" where
  "py_get (PDict kvs) k = Inr (dict_get kvs k)"
| "py_get PNone k = Inl AttributeError"
| "py_get (PBool b) k = Inl AttributeError"
| "py_get (PInt i) k = Inl AttributeError"
| "py_get (PStr s) k = Inl AttributeError"
| "py_get (PList xs) k = Inl AttributeError"

subsection \<open>The external libraries\<close>

text \<open>
  flask_bcrypt and flask_jwt_extended are not part of the repository; the handlers take
  them as a parameter. \<open>generate_password_hash\<close> stands for
  \<open>bcrypt.generate_password_hash(password).decode('utf-8')\<close> and may raise (the library
  rejects a password that is not a non-empty string); \<open>check_password_hash\<close> takes the
  stored value as fetched and the submitted password and may raise as well;
  \<open>get_jwt_identity\<close> reads the identity out of the token of the current request.
\<close>

datatype sqlval = Null | Integer int | Text string

record 't libs =
  generate_password_hash :: "pyval \<Rightarrow> error + string"
  check_password_hash :: "sqlval \<Rightarrow> pyval \<Rightarrow> error + bool"
  create_access_token :: "pyval \<Rightarrow> 't"
  get_jwt_identity :: "'t \<Rightarrow> pyval"

subsection \<open>Storage\<close>

text \<open>
  Modelled from the spec: the schema of the table is not in the repository; the spec gives
  it as \<open>users(email UNIQUE, password)\<close>. A row is the pair (email, password); the columns
  declare no type, so a value is stored as it was bound. The UNIQUE constraint of SQLite
  rejects a second row with an equal email that is not NULL (NULL is distinct from every
  value, itself included).
\<close>

type_synonym row = "sqlval \<times> sqlval"

datatype db_event = Connect | Execute | Commit | Close

text \<open>
  The storage state: the committed rows of \<open>users\<close>, whether a connection can be made,
  and the trace of what the handlers did to connections.
\<close>

record database =
  users :: "row list"
  available :: bool
  trace :: "db_event list"

text \<open>A connection holds the rows it has inserted and not yet committed.\<close>

record connection =
  pending :: "row list"

definition record_event :: "db_event \<Rightarrow> database \<Rightarrow> database" where
  "record_event ev db = db\<lparr>trace := trace db @ [ev]\<rparr>"

text \<open>\<open>sqlite3.connect("simulation.db")\<close>\<close>

definition sqlite3_connect :: "database \<Rightarrow> (error + connection) \<times> database" where
  "sqlite3_connect db =
     (if available db then (Inr \<lparr>pending = []\<rparr>, record_event Connect db)
      else (Inl OperationalError, db))"

text \<open>
  Binding a Python value to a \<open>?\<close> parameter, which \<open>cursor.execute\<close> does before it
  runs the statement: \<open>None\<close> is NULL, a bool or int an integer, a str a text. An SQLite
  integer has 64 bits: an int below \<open>-2^63\<close> or above \<open>2^63 - 1\<close> raises OverflowError.
  The sqlite3 module refuses a list or a dict.
\<close>

fun bind_param :: "pyval \<Rightarrow> error + sqlval" where
  "bind_param PNone = Inr Null"
| "bind_param (PBool b) = Inr (Integer (if b then 1 else 0))"
| "bind_param (PInt i) =
     (if - 9223372036854775808 \<le> i \<and> i \<le> 9223372036854775807 then Inr (Integer i)
      else Inl OverflowError)"
| "bind_param (PStr s) = Inr (Text s)"
| "bind_param (PList xs) = Inl ProgrammingError"
| "bind_param (PDict kvs) = Inl ProgrammingError"

text \<open>The SQL comparison \<open>a = b\<close> holds only between equal values that are not NULL.\<close>

definition sql_eq :: "sqlval \<Rightarrow> sqlval \<Rightarrow> bool" where
  "sql_eq a b = (a \<noteq> Null \<and> b \<noteq> Null \<and> a = b)"

text \<open>The first row whose email equals the key, as \<open>fetchone()\<close> returns it.\<close>

definition find_user :: "row list \<Rightarrow> sqlval \<Rightarrow> row option" where
  "find_user rows k = find (\<lambda>r. sql_eq (fst r) k) rows"

text \<open>
  \<open>cursor.execute("SELECT password FROM users WHERE email = ?", (username,))\<close> followed
  by \<open>cursor.fetchone()\<close>: \<open>None\<close> or the one-column row \<open>(password,)\<close>.
\<close>

definition select_password ::
  "connection \<Rightarrow> pyval \<Rightarrow> database \<Rightarrow> (error + sqlval option) \<times> database" where
  "select_password conn username db =
     (case bind_param username of
        Inl e \<Rightarrow> (Inl e, db)
      | Inr k \<Rightarrow>
          (Inr (map_option snd (find_user (users db @ pending conn) k)),
           record_event Execute db))"

text \<open>
  \<open>cursor.execute("INSERT INTO users (email, password) VALUES (?, ?)", (username,
  hashed_password))\<close>: raises IntegrityError when the email is taken; the new row stays
  with the connection until commit.

  Modelled from the spec: the constraint that raises is the \<open>email UNIQUE\<close> of the
  spec's schema \<open>users(email UNIQUE, password)\<close>; the table's declaration is not in
  the repository.
\<close>

definition insert_user ::
  "connection \<Rightarrow> pyval \<Rightarrow> pyval \<Rightarrow> database \<Rightarrow> (error + connection) \<times> database" where
  "insert_user conn username hashed_password db =
     (case bind_param username of
        Inl e \<Rightarrow> (Inl e, db)
      | Inr k \<Rightarrow>
         (case bind_param hashed_password of
            Inl e \<Rightarrow> (Inl e, db)
          | Inr h \<Rightarrow>
             (case find_user (users db @ pending conn) k of
                Some r \<Rightarrow> (Inl IntegrityError, record_event Execute db)
              | None \<Rightarrow>
                 (Inr (conn\<lparr>pending := pending conn @ [(k, h)]\<rparr>),
                  record_event Execute db))))"

text \<open>\<open>conn.commit()\<close>\<close>

definition conn_commit :: "connection \<Rightarrow> database \<Rightarrow> connection \<times> database" where
  "conn_commit conn db =
     (conn\<lparr>pending := []\<rparr>,
      record_event Commit (db\<lparr>users := users db @ pending conn\<rparr>))"

text \<open>\<open>conn.close()\<close>: uncommitted rows are dropped with the connection.\<close>

definition conn_close :: "connection \<Rightarrow> database \<Rightarrow> database" where
  "conn_close conn db = record_event Close db"

subsection \<open>The handlers\<close>

text \<open>The fixed responses the handlers build with \<open>jsonify\<close>, by name.\<close>

abbreviation ok_response :: "'t response" where
  "ok_response \<equiv> Response 200 (Fields [(''status'', ''ok'')])"

abbreviation invalid_credentials :: "'t response" where
  "invalid_credentials \<equiv> Response 401 (Fields [(''message'', ''Invalid credentials'')])"

abbreviation user_created :: "'t response" where
  "user_created \<equiv>
     Response 201 (Fields [(''status'', ''success''), (''message'', ''User created'')])"

abbreviation user_exists :: "'t response" where
  "user_exists \<equiv>
     Response 409 (Fields [(''status'', ''error''), (''message'', ''User already exists'')])"

text \<open>\<open>login\<close>, lines 10 to 29.\<close>

definition login ::
  "'t libs \<Rightarrow> request \<Rightarrow> database \<Rightarrow> (error + 't response) \<times> database" where
  "login lib req db =
     (if req_method req = OPTIONS then (Inr ok_response, db)
      else
       (case get_json req of
          Inl e \<Rightarrow> (Inl e, db)
        | Inr data \<Rightarrow>
         (case py_get data ''username'' of
            Inl e \<Rightarrow> (Inl e, db)
          | Inr username \<Rightarrow>
           (case py_get data ''password'' of
              Inl e \<Rightarrow> (Inl e, db)
            | Inr password \<Rightarrow>
             (case sqlite3_connect db of
                (Inl e, db1) \<Rightarrow> (Inl e, db1)
              | (Inr conn, db1) \<Rightarrow>
               (case select_password conn username db1 of
                  (Inl e, db2) \<Rightarrow> (Inl e, db2)
                | (Inr result, db2) \<Rightarrow>
                   (let db3 = conn_close conn db2 in
                    (case result of
                       None \<Rightarrow> (Inr invalid_credentials, db3)
                     | Some stored \<Rightarrow>
                        (case check_password_hash lib stored password of
                           Inl e \<Rightarrow> (Inl e, db3)
                         | Inr verified \<Rightarrow>
                            if verified
                            then (Inr (Response 200
                                    (AccessToken (create_access_token lib username))), db3)
                            else (Inr invalid_credentials, db3))))))))))"

text \<open>The body of the \<open>try\<close> of \<open>signup\<close>, lines 43 to 48.\<close>

definition signup_try ::
  "pyval \<Rightarrow> string \<Rightarrow> database \<Rightarrow> (error + 't response) \<times> database" where
  "signup_try username hashed_password db =
     (case sqlite3_connect db of
        (Inl e, db1) \<Rightarrow> (Inl e, db1)
      | (Inr conn, db1) \<Rightarrow>
         (case insert_user conn username (PStr hashed_password) db1 of
            (Inl e, db2) \<Rightarrow> (Inl e, db2)
          | (Inr conn2, db2) \<Rightarrow>
             (case conn_commit conn2 db2 of
                (conn3, db3) \<Rightarrow> (Inr user_created, conn_close conn3 db3))))"

text \<open>
  \<open>signup\<close>, lines 31 to 50. The \<open>except sqlite3.IntegrityError\<close> clause answers 409 and
  lets every other exception of the \<open>try\<close> pass.
\<close>

definition signup ::
  "'t libs \<Rightarrow> request \<Rightarrow> database \<Rightarrow> (error + 't response) \<times> database" where
  "signup lib req db =
     (if req_method req = OPTIONS then (Inr ok_response, db)
      else
       (case get_json req of
          Inl e \<Rightarrow> (Inl e, db)
        | Inr data \<Rightarrow>
         (case py_get data ''username'' of
            Inl e \<Rightarrow> (Inl e, db)
          | Inr username \<Rightarrow>
           (case py_get data ''password'' of
              Inl e \<Rightarrow> (Inl e, db)
            | Inr password \<Rightarrow>
             (case generate_password_hash lib password of
                Inl e \<Rightarrow> (Inl e, db)
              | Inr hashed_password \<Rightarrow>
                 (case signup_try username hashed_password db of
                    (Inl e, db1) \<Rightarrow>
                      if e = IntegrityError then (Inr user_exists, db1) else (Inl e, db1)
                  | (Inr r, db1) \<Rightarrow> (Inr r, db1)))))))"

text \<open>\<open>get_current_user_email\<close>, lines 52 to 54, on the token of the current request.\<close>

definition get_current_user_email :: "'t libs \<Rightarrow> 't \<Rightarrow> pyval" where
  "get_current_user_email lib token = get_jwt_identity lib token"


subsection \<open>Serving a sequence of requests\<close>

text \<open>
  The two routes of the blueprint. Flask calls the handler of the route for each request;
  the storage state a request leaves is the state the next one finds.
\<close>

datatype endpoint = LoginRoute | SignupRoute

fun serve ::
  "'t libs \<Rightarrow> endpoint \<times> request \<Rightarrow> database \<Rightarrow> (error + 't response) \<times> database" where
  "serve lib (LoginRoute, req) db = login lib req db"
| "serve lib (SignupRoute, req) db = signup lib req db"

fun serve_all :: "'t libs \<Rightarrow> (endpoint \<times> request) list \<Rightarrow> database \<Rightarrow> database" where
  "serve_all lib [] db = db"
| "serve_all lib (x # xs) db = serve_all lib xs (snd (serve lib x db))"

text \<open>
  The uniqueness invariant of the data model: no identifier is the email of two rows. An
  identifier is a value that is not NULL; a row whose email is NULL carries none.
\<close>

definition unique_emails :: "row list \<Rightarrow> bool" where
  "unique_emails rows = distinct (filter (\<lambda>e. e \<noteq> Null) (map fst rows))"

subsection \<open>A stand-in for the libraries, and sample requests\<close>

text \<open>
  To run the handlers on concrete requests the libraries need an instance. In this one the
  hash of a password is the password behind a fixed prefix, hashing rejects what is not a
  non-empty string, and a token is the identity it was made for.
\<close>

fun toy_hash :: "pyval \<Rightarrow> error + string" where
  "toy_hash (PStr s) = (if s = [] then Inl ValueError else Inr (''h:'' @ s))"
| "toy_hash PNone = Inl ValueError"
| "toy_hash (PBool b) = Inl TypeError"
| "toy_hash (PInt i) = Inl TypeError"
| "toy_hash (PList xs) = Inl TypeError"
| "toy_hash (PDict kvs) = Inl TypeError"

fun toy_check :: "sqlval \<Rightarrow> pyval \<Rightarrow> error + bool" where
  "toy_check (Text h) (PStr s) = Inr (h = ''h:'' @ s)"
| "toy_check h p = Inl TypeError"

definition toy_libs :: "pyval libs" where
  "toy_libs =
     \<lparr>generate_password_hash = toy_hash, check_password_hash = toy_check,
      create_access_token = (\<lambda>identity. identity), get_jwt_identity = (\<lambda>token. token)\<rparr>"

abbreviation post_json :: "pyval \<Rightarrow> request" where
  "post_json v \<equiv> \<lparr>req_method = POST, get_json = Inr v\<rparr>"

abbreviation credentials :: "string \<Rightarrow> string \<Rightarrow> pyval" where
  "credentials u p \<equiv> PDict [(''username'', PStr u), (''password'', PStr p)]"

abbreviation empty_db :: database where
  "empty_db \<equiv> \<lparr>users = [], available = True, trace = []\<rparr>"

abbreviation ann_db :: database where
  "ann_db \<equiv> \<lparr>users = [(Text ''ann@example.org'', Text ''h:pw1'')], available = True, trace = []\<rparr>"

section \<open>Properties\<close>

subsection \<open>What the handlers do with a JSON object\<close>

lemmas storage_defs =
  sqlite3_connect_def select_password_def insert_user_def conn_commit_def conn_close_def
  record_event_def

text \<open>
  A POST to \<open>login\<close> whose body is a JSON object, with storage available and a username
  that SQLite can bind: one connection is opened, queried and closed, and the outcome
  depends on the row found and on the verification call alone.
\<close>

lemma login_post_dict:
  assumes "req_method req = POST" "get_json req = Inr (PDict kvs)" "available db"
    "bind_param (dict_get kvs ''username'') = Inr k"
  shows "login lib req db =
    (case find_user (users db) k of
       None \<Rightarrow> (Inr invalid_credentials, db\<lparr>trace := trace db @ [Connect, Execute, Close]\<rparr>)
     | Some r \<Rightarrow>
        (case check_password_hash lib (snd r) (dict_get kvs ''password'') of
           Inl e \<Rightarrow> (Inl e, db\<lparr>trace := trace db @ [Connect, Execute, Close]\<rparr>)
         | Inr verified \<Rightarrow>
            if verified
            then (Inr (Response 200
                    (AccessToken (create_access_token lib (dict_get kvs ''username'')))),
                  db\<lparr>trace := trace db @ [Connect, Execute, Close]\<rparr>)
            else (Inr invalid_credentials,
                  db\<lparr>trace := trace db @ [Connect, Execute, Close]\<rparr>)))"
  using assms
  by (simp add: login_def storage_defs split: option.splits sum.splits)


text \<open>
  A username that SQLite cannot bind makes \<open>execute\<close> raise before the statement runs:
  the error leaves the handler (it is never IntegrityError, so the \<open>except\<close> clause of
  signup lets it pass), the table is as before, and the connection has been opened and is
  not closed.
\<close>

lemma bind_param_not_integrity: "bind_param v \<noteq> Inl IntegrityError"
  by (cases v) simp_all

lemma login_unbindable_username:
  assumes "req_method req = POST" "get_json req = Inr (PDict kvs)" "available db"
    "bind_param (dict_get kvs ''username'') = Inl e"
  shows "login lib req db = (Inl e, db\<lparr>trace := trace db @ [Connect]\<rparr>)"
  using assms
  by (simp add: login_def storage_defs)

lemma signup_unbindable_username:
  assumes "req_method req = POST" "get_json req = Inr (PDict kvs)" "available db"
    "bind_param (dict_get kvs ''username'') = Inl e"
    "generate_password_hash lib (dict_get kvs ''password'') = Inr h"
  shows "signup lib req db = (Inl e, db\<lparr>trace := trace db @ [Connect]\<rparr>)"
proof -
  from assms(4) have "e \<noteq> IntegrityError"
    using bind_param_not_integrity [of "dict_get kvs ''username''"] by auto
  with assms show ?thesis
    by (simp add: signup_def signup_try_def storage_defs)
qed

text \<open>The username \<open>2^63\<close> on an empty table: both handlers raise OverflowError.\<close>

lemma login_username_overflow:
  "login toy_libs
     (post_json (PDict [(''username'', PInt 9223372036854775808), (''password'', PStr ''pw'')]))
     empty_db
   = (Inl OverflowError, \<lparr>users = [], available = True, trace = [Connect]\<rparr>)"
  by (simp add: login_def storage_defs dict_get_def)

lemma signup_username_overflow:
  "signup toy_libs
     (post_json (PDict [(''username'', PInt 9223372036854775808), (''password'', PStr ''pw'')]))
     empty_db
   = (Inl OverflowError, \<lparr>users = [], available = True, trace = [Connect]\<rparr>)"
  by (simp add: signup_def signup_try_def storage_defs dict_get_def toy_libs_def)


subsection \<open>What the handlers leave alone\<close>

lemma login_users_frame: "users (snd (login lib req db)) = users db"
  by (simp add: login_def storage_defs Let_def split: sum.splits option.splits prod.splits)

lemma signup_users_cases:
  "users (snd (signup lib req db)) = users db \<or>
   (\<exists>k h. find_user (users db) k = None \<and>
      users (snd (signup lib req db)) = users db @ [(k, h)])"
  by (auto simp: signup_def signup_try_def storage_defs Let_def
      split: sum.splits option.splits prod.splits if_splits)

lemma unique_emails_append:
  assumes "unique_emails rows" "find_user rows k = None"
  shows "unique_emails (rows @ [(k, h)])"
proof (cases "k = Null")
  case True
  with assms(1) show ?thesis by (simp add: unique_emails_def)
next
  case False
  from assms(2) have "\<forall>r \<in> set rows. \<not> sql_eq (fst r) k"
    by (auto simp: find_user_def find_None_iff)
  with False have "k \<notin> fst ` set rows"
    by (auto simp: sql_eq_def)
  with assms(1) False show ?thesis
    by (simp add: unique_emails_def)
qed

lemma serve_unique:
  "unique_emails (users db) \<Longrightarrow> unique_emails (users (snd (serve lib x db)))"
proof (cases x)
  case (Pair ep req)
  assume u: "unique_emails (users db)"
  show ?thesis
  proof (cases ep)
    case LoginRoute
    with Pair u show ?thesis by (simp add: login_users_frame)
  next
    case SignupRoute
    with Pair u signup_users_cases [of lib req db] show ?thesis
      by (auto simp: unique_emails_append)
  qed
qed

subsection \<open>Login answers 401 exactly on an unknown identifier or a wrong secret\<close>

text \<open>
  C1. For a login POST whose body is a JSON object, with storage available, a username
  SQLite can bind (\<open>None\<close>, a bool, an integer of 64 bits, a string; not a larger
  integer, a list or a dict) and a verification call that returns a verdict on the stored
  hash: the
  answer is 401 with the message "Invalid credentials" if and only if no row has the
  submitted identifier, or the submitted secret does not verify against the hash of the
  row found; in every other case the answer is 200 with an access token made for the
  submitted username. A missing field is read as \<open>None\<close> and is covered: a username of
  \<open>None\<close> is bound as NULL and matches no row.
\<close>

theorem login_post_unauthorized_iff:
  assumes "req_method req = POST"
    and "get_json req = Inr (PDict kvs)"
    and "available db"
    and "bind_param (dict_get kvs ''username'') = Inr k"
    and "\<forall>r. find_user (users db) k = Some r \<longrightarrow>
           (\<exists>b. check_password_hash lib (snd r) (dict_get kvs ''password'') = Inr b)"
  shows "(fst (login lib req db) =
            Inr (Response 401 (Fields [(''message'', ''Invalid credentials'')])))
           = (find_user (users db) k = None \<or>
              (\<exists>r. find_user (users db) k = Some r \<and>
                 check_password_hash lib (snd r) (dict_get kvs ''password'') = Inr False))
         \<and> (fst (login lib req db) \<noteq>
               Inr (Response 401 (Fields [(''message'', ''Invalid credentials'')]))
              \<longrightarrow> fst (login lib req db) =
                Inr (Response 200
                  (AccessToken (create_access_token lib (dict_get kvs ''username'')))))"
proof (cases "find_user (users db) k")
  case None
  with login_post_dict [OF assms(1-4), of lib] show ?thesis by simp
next
  case (Some r)
  with assms(5) obtain b
    where b: "check_password_hash lib (snd r) (dict_get kvs ''password'') = Inr b"
    by blast
  with Some login_post_dict [OF assms(1-4), of lib] show ?thesis
    by (cases b) simp_all
qed

text \<open>
  On a table holding ann@example.org: her password gives 200 and a token, a wrong
  password 401, an unknown identifier 401.
\<close>

theorem login_post_unauthorized_iff_witness:
  "fst (login toy_libs (post_json (credentials ''ann@example.org'' ''pw1'')) ann_db)
     = Inr (Response 200 (AccessToken (PStr ''ann@example.org'')))
   \<and> fst (login toy_libs (post_json (credentials ''ann@example.org'' ''guess'')) ann_db)
     = Inr (Response 401 (Fields [(''message'', ''Invalid credentials'')]))
   \<and> fst (login toy_libs (post_json (credentials ''bob@example.org'' ''pw1'')) ann_db)
     = Inr (Response 401 (Fields [(''message'', ''Invalid credentials'')]))"
  using login_post_unauthorized_iff [of "post_json (credentials ''ann@example.org'' ''pw1'')"
      "[(''username'', PStr ''ann@example.org''), (''password'', PStr ''pw1'')]"
      ann_db "Text ''ann@example.org''" toy_libs]
    login_post_unauthorized_iff [of "post_json (credentials ''ann@example.org'' ''guess'')"
      "[(''username'', PStr ''ann@example.org''), (''password'', PStr ''guess'')]"
      ann_db "Text ''ann@example.org''" toy_libs]
    login_post_unauthorized_iff [of "post_json (credentials ''bob@example.org'' ''pw1'')"
      "[(''username'', PStr ''bob@example.org''), (''password'', PStr ''pw1'')]"
      ann_db "Text ''bob@example.org''" toy_libs]
  by (auto simp: dict_get_def find_user_def sql_eq_def toy_libs_def)

subsection \<open>Signup answers 409 exactly on a taken identifier\<close>



subsection \<open>Signup, then login\<close>



subsection \<open>Identifiers stay unique\<close>

text \<open>
  C4. Uniqueness of identifiers is an invariant: from a table in which every identifier is
  the email of at most one row, any sequence of requests to the two routes (logins,
  signups, OPTIONS) leads to a table in which that still holds. A signup that would repeat
  an identifier adds no row.
\<close>

theorem unique_emails_invariant:
  "unique_emails (users db) \<Longrightarrow> unique_emails (users (serve_all lib reqs db))"
proof (induction reqs arbitrary: db)
  case Nil
  then show ?case by simp
next
  case (Cons x xs)
  from Cons.prems have "unique_emails (users (snd (serve lib x db)))"
    by (rule serve_unique)
  then show ?case by (simp add: Cons.IH)
qed

theorem unique_emails_invariant_witness:
  "unique_emails (users (serve_all toy_libs
      [(SignupRoute, post_json (credentials ''bob@example.org'' ''pw2'')),
       (SignupRoute, post_json (credentials ''bob@example.org'' ''pw3'')),
       (LoginRoute, post_json (credentials ''bob@example.org'' ''pw2'')),
       (LoginRoute, \<lparr>req_method = OPTIONS, get_json = Inl BadRequest\<rparr>)] ann_db))"
  using unique_emails_invariant [of ann_db toy_libs
      "[(SignupRoute, post_json (credentials ''bob@example.org'' ''pw2'')),
       (SignupRoute, post_json (credentials ''bob@example.org'' ''pw3'')),
       (LoginRoute, post_json (credentials ''bob@example.org'' ''pw2'')),
       (LoginRoute, \<lparr>req_method = OPTIONS, get_json = Inl BadRequest\<rparr>)]"]
  by (simp add: unique_emails_def)

subsection \<open>OPTIONS\<close>

text \<open>
  C5. An OPTIONS request on either route is answered 200 with the body \<open>{status: "ok"}\<close>,
  and the storage state is the one before: the table is unchanged and the trace has no new
  event, so no connection was opened.
\<close>

theorem options_ok_storage_untouched:
  assumes "req_method req = OPTIONS"
  shows "login lib req db = (Inr (Response 200 (Fields [(''status'', ''ok'')])), db)
       \<and> signup lib req db = (Inr (Response 200 (Fields [(''status'', ''ok'')])), db)"
  using assms by (simp add: login_def signup_def)

theorem options_ok_storage_untouched_witness:
  "login toy_libs \<lparr>req_method = OPTIONS, get_json = Inl BadRequest\<rparr> ann_db
     = (Inr (Response 200 (Fields [(''status'', ''ok'')])), ann_db)
   \<and> signup toy_libs \<lparr>req_method = OPTIONS, get_json = Inl BadRequest\<rparr> ann_db
     = (Inr (Response 200 (Fields [(''status'', ''ok'')])), ann_db)"
  using options_ok_storage_untouched
    [of "\<lparr>req_method = OPTIONS, get_json = Inl BadRequest\<rparr>" toy_libs ann_db]
  by simp

subsection \<open>The token is bound to the identifier\<close>

text \<open>
  C6. With a token library whose tokens give back the identity they were made for: a login
  POST answered 200 carries an access token whose identity, as
  \<open>get_current_user_email\<close> reads it, is the username of the request; and a response of
  login that carries a token is a 200 to a POST, so a request answered 401 gets none (a
  request that raises gets no response at all).
\<close>

theorem login_token_bound_to_identifier:
  assumes "\<forall>identity. get_jwt_identity lib (create_access_token lib identity) = identity"
  shows "(req_method req = POST \<and> fst (login lib req db) = Inr r \<and> status r = 200 \<longrightarrow>
            (\<exists>kvs t. get_json req = Inr (PDict kvs) \<and> body r = AccessToken t
               \<and> get_current_user_email lib t = dict_get kvs ''username''))
       \<and> (fst (login lib req db) = Inr r \<and> body r = AccessToken t \<longrightarrow>
            req_method req = POST \<and> status r = 200)"
  using assms
  by (cases "req_method req")
    (auto simp: login_def storage_defs get_current_user_email_def Let_def
      split: sum.splits option.splits prod.splits if_splits elim!: py_get.elims)

theorem login_token_bound_to_identifier_witness:
  "get_current_user_email toy_libs (PStr ''ann@example.org'') = PStr ''ann@example.org''
   \<and> fst (login toy_libs (post_json (credentials ''ann@example.org'' ''pw1'')) ann_db)
     = Inr (Response 200 (AccessToken (PStr ''ann@example.org'')))"
  using login_token_bound_to_identifier
    [of toy_libs "post_json (credentials ''ann@example.org'' ''pw1'')" ann_db
      "Response 200 (AccessToken (PStr ''ann@example.org''))" "PStr ''ann@example.org''"]
  by (auto simp: login_def storage_defs dict_get_def find_user_def sql_eq_def toy_libs_def
      get_current_user_email_def)

subsection \<open>Failures the handlers do not answer\<close>

text \<open>
  C7, as stated, counts a body without the username or password field among the failures
  that leave the handler as an error and never as a 401. The handlers do not check for the
  fields: \<open>data.get\<close> reads a missing field as \<open>None\<close> and the handler goes on. A login
  POST with the body \<open>{}\<close> on an empty table finds no row and is answered 401.
\<close>

theorem login_missing_fields_unauthorized:
  "fst (login toy_libs (post_json (PDict [])) empty_db)
     = Inr (Response 401 (Fields [(''message'', ''Invalid credentials'')]))"
  by (simp add: login_def storage_defs dict_get_def find_user_def)

text \<open>
  C7, amended. A POST to login or signup whose failure is neither invalid credentials nor a
  duplicate user leaves the handler as an error, with no 401 or 409 and the storage state
  untouched: a body that \<open>get_json\<close> rejects raises what \<open>get_json\<close> raised; a body that
  is JSON and not an object raises AttributeError; with a JSON object and storage that
  cannot be reached, login raises OperationalError and signup raises (that error, or the
  one the hashing call raised before it).
\<close>

theorem other_failures_propagate:
  assumes "req_method req = POST"
  shows "(get_json req = Inl e \<longrightarrow>
            login lib req db = (Inl e, db) \<and> signup lib req db = (Inl e, db))
       \<and> (get_json req = Inr v \<and> (\<forall>kvs. v \<noteq> PDict kvs) \<longrightarrow>
            login lib req db = (Inl AttributeError, db)
            \<and> signup lib req db = (Inl AttributeError, db))
       \<and> (get_json req = Inr (PDict kvs) \<and> \<not> available db \<longrightarrow>
            login lib req db = (Inl OperationalError, db)
            \<and> (\<exists>e'. signup lib req db = (Inl e', db)))"
proof (intro conjI impI)
  assume "get_json req = Inl e"
  with assms show "login lib req db = (Inl e, db)" by (simp add: login_def)
  from assms \<open>get_json req = Inl e\<close> show "signup lib req db = (Inl e, db)"
    by (simp add: signup_def)
next
  assume nd: "get_json req = Inr v \<and> (\<forall>kvs. v \<noteq> PDict kvs)"
  then have "py_get v ''username'' = Inl AttributeError"
    by (cases v) simp_all
  with assms nd show "login lib req db = (Inl AttributeError, db)"
    by (simp add: login_def)
  from assms nd \<open>py_get v ''username'' = Inl AttributeError\<close>
  show "signup lib req db = (Inl AttributeError, db)"
    by (simp add: signup_def)
next
  assume un: "get_json req = Inr (PDict kvs) \<and> \<not> available db"
  with assms show "login lib req db = (Inl OperationalError, db)"
    by (simp add: login_def sqlite3_connect_def)
  from assms un show "\<exists>e'. signup lib req db = (Inl e', db)"
    by (simp add: signup_def signup_try_def sqlite3_connect_def split: sum.splits)
qed

text \<open>A body that is not JSON, a body that is a JSON list, and storage out of reach.\<close>

theorem other_failures_propagate_witness:
  "login toy_libs \<lparr>req_method = POST, get_json = Inl BadRequest\<rparr> ann_db = (Inl BadRequest, ann_db)
   \<and> signup toy_libs \<lparr>req_method = POST, get_json = Inl BadRequest\<rparr> ann_db
       = (Inl BadRequest, ann_db)
   \<and> login toy_libs (post_json (PList [PStr ''ann@example.org'', PStr ''pw1''])) ann_db
       = (Inl AttributeError, ann_db)
   \<and> signup toy_libs (post_json (PList [PStr ''ann@example.org'', PStr ''pw1''])) ann_db
       = (Inl AttributeError, ann_db)
   \<and> login toy_libs (post_json (credentials ''ann@example.org'' ''pw1''))
        \<lparr>users = [], available = False, trace = []\<rparr>
       = (Inl OperationalError, \<lparr>users = [], available = False, trace = []\<rparr>)"
  using other_failures_propagate
      [of "\<lparr>req_method = POST, get_json = Inl BadRequest\<rparr>" BadRequest toy_libs ann_db]
    other_failures_propagate
      [of "post_json (PList [PStr ''ann@example.org'', PStr ''pw1''])" _ toy_libs ann_db
        "PList [PStr ''ann@example.org'', PStr ''pw1'']"]
    other_failures_propagate
      [of "post_json (credentials ''ann@example.org'' ''pw1'')" _ toy_libs
        "\<lparr>users = [], available = False, trace = []\<rparr>" _
        "[(''username'', PStr ''ann@example.org''), (''password'', PStr ''pw1'')]"]
  by simp

subsection \<open>Connections\<close>

text \<open>
  C8. Every POST opens its own connection and closes it before the handler returns, on
  every return path. The 409 path of signup does not: \<open>conn.close()\<close> stands in the
  \<open>try\<close> after the INSERT, and the \<open>except\<close> clause returns without it. A signup for
  the identifier already in the table is answered 409 and its trace is a connect and an
  execute, with no close; the sibling path, a signup for a new identifier, ends its trace
  with commit and close.
\<close>

theorem signup_conflict_leaves_connection_open:
  "signup toy_libs (post_json (credentials ''ann@example.org'' ''pw2'')) ann_db
     = (Inr (Response 409 (Fields [(''status'', ''error''), (''message'', ''User already exists'')])),
        \<lparr>users = [(Text ''ann@example.org'', Text ''h:pw1'')], available = True,
         trace = [Connect, Execute]\<rparr>)
   \<and> trace (snd (signup toy_libs (post_json (credentials ''bob@example.org'' ''pw2'')) ann_db))
     = [Connect, Execute, Commit, Close]"
  by (simp add: signup_def signup_try_def storage_defs dict_get_def find_user_def sql_eq_def
      toy_libs_def)

subsection \<open>Login only reads\<close>

text \<open>
  C9. Login never modifies the users table: for every request, whatever its method and
  credentials, answered or raising, the table after the call is the table before it.
\<close>

theorem login_users_unchanged: "users (snd (login lib req db)) = users db"
  by (rule login_users_frame)

subsection \<open>A conflict changes nothing\<close>

text \<open>
  C10. When signup answers 409 the users table is unchanged; in particular the row of
  every identifier keeps the password hash it had, and the hash computed for the new
  secret is dropped.
\<close>

theorem signup_conflict_users_unchanged:
  assumes "fst (signup lib req db) = Inr r" and "status r = 409"
  shows "users (snd (signup lib req db)) = users db
       \<and> map_option snd (find_user (users (snd (signup lib req db))) k)
           = map_option snd (find_user (users db) k)"
  using assms
  by (auto simp: signup_def signup_try_def storage_defs
      split: sum.splits option.splits prod.splits if_splits)

theorem signup_conflict_users_unchanged_witness:
  "users (snd (signup toy_libs (post_json (credentials ''ann@example.org'' ''pw2'')) ann_db))
     = [(Text ''ann@example.org'', Text ''h:pw1'')]
   \<and> map_option snd (find_user
        (users (snd (signup toy_libs (post_json (credentials ''ann@example.org'' ''pw2'')) ann_db)))
        (Text ''ann@example.org''))
     = Some (Text ''h:pw1'')"
  using signup_conflict_users_unchanged
    [of toy_libs "post_json (credentials ''ann@example.org'' ''pw2'')" ann_db
      "Response 409 (Fields [(''status'', ''error''), (''message'', ''User already exists'')])"
      "Text ''ann@example.org''"]
  by (simp add: signup_def signup_try_def storage_defs dict_get_def find_user_def sql_eq_def
      toy_libs_def)

end
